theory Spec2Isabelle
  imports Complex_Main "HOL-Library.Word"
begin

section \<open>Python values, exceptions and dictionaries\<close>

text \<open>
  The exceptions the modelled code can raise.  \<open>CommandNotFound\<close> carries the
  message it was constructed with (\<open>TshError.message\<close>); the others are the
  built-in exception classes of Python.  \<open>CodecError\<close> stands for the
  \<open>UnicodeError\<close>/\<open>LookupError\<close> family raised by \<open>str.encode\<close> and
  \<open>bytes.decode\<close>.
\<close>

datatype error =
    CommandNotFound string
  | OSError
  | AttributeError
  | IndexError
  | KeyError
  | TypeError
  | CodecError

text \<open>
  Keyword-argument and option values.  The defaults of \<open>Command.DEFAULT_OPTIONS\<close>
  are \<open>False\<close>, \<open>None\<close> and strings, so these three shapes are modelled.
  \<open>py_str\<close> is Python's \<open>str()\<close>, which is what an f-string applies.
\<close>

datatype pyval = PNone | PBool bool | PStr string

fun py_str :: "pyval \<Rightarrow> string" where
  "py_str PNone = ''None''"
| "py_str (PBool True) = ''True''"
| "py_str (PBool False) = ''False''"
| "py_str (PStr s) = s"

text \<open>
  A Python \<open>dict\<close> with string keys: an association list in insertion order.
  Assigning to a key that is present keeps its position and replaces its value;
  a new key goes to the end.  \<open>dict_update d e\<close> is \<open>{**d, **e}\<close>.
\<close>

type_synonym 'v dict = "(string \<times> 'v) list"

definition dict_get :: "'v dict \<Rightarrow> string \<Rightarrow> 'v option" where
  "dict_get d k = map_of d k"

fun dict_set :: "'v dict \<Rightarrow> string \<Rightarrow> 'v \<Rightarrow> 'v dict" where
  "dict_set [] k v = [(k, v)]"
| "dict_set ((k', v') # d) k v =
     (if k' = k then (k', v) # d else (k', v') # dict_set d k v)"

fun dict_update :: "'v dict \<Rightarrow> 'v dict \<Rightarrow> 'v dict" where
  "dict_update d [] = d"
| "dict_update d ((k, v) # e) = dict_update (dict_set d k v) e"

definition dict_pop :: "'v dict \<Rightarrow> string \<Rightarrow> 'v dict" where
  "dict_pop d k = filter (\<lambda>kv. fst kv \<noteq> k) d"

definition dict_keys :: "'v dict \<Rightarrow> string list" where
  "dict_keys d = map fst d"

section \<open>The operating system as seen by the library\<close>

type_synonym bytes = "8 word list"

text \<open>
  What goes through a pipe: the pieces written to it, each with the time at
  which it is written, in the order of writing.
\<close>

type_synonym pipe = "(rat \<times> bytes) list"

text \<open>
  A child process as the operating system reports it after a successful spawn:
  its pid, the delay after which it terminates on its own (\<open>None\<close>: it never
  does), its exit status, and what it writes to its standard output and its
  standard error, each piece with the delay after which it is written.
\<close>

record child =
  child_pid :: int
  child_runtime :: "rat option"
  child_status :: int
  child_out :: pipe
  child_err :: pipe

text \<open>
  The outcome of sending \<open>SIGKILL\<close>: the system call fails with \<open>OSError\<close>, or
  the signal is delivered and the target is gone after the given number of
  seconds.
\<close>

datatype sig_result = SigFails | SigDelivered rat

text \<open>
  The library and system calls the code relies on, taken as parameters:
  \<open>shutil.which\<close>, \<open>os.path.abspath\<close> (relative to a working directory),
  \<open>str.encode\<close> and \<open>bytes.decode\<close> for a named encoding, whether
  \<open>io.open(path, "wb")\<close> and \<open>os.makedirs\<close> succeed, the spawn performed by
  \<open>subprocess.Popen\<close> (\<open>None\<close>: \<open>OSError\<close>), \<open>posix.getpgid\<close>
  (\<open>None\<close>: \<open>OSError\<close>) and the three places where a signal is sent.
\<close>

record os_api =
  which :: "string \<Rightarrow> string option \<Rightarrow> string option"
  abspath :: "string \<Rightarrow> string \<Rightarrow> string"
  str_encode :: "string \<Rightarrow> string \<Rightarrow> error + bytes"
  bytes_decode :: "string \<Rightarrow> bytes \<Rightarrow> error + string"
  open_wb_ok :: "string \<Rightarrow> bool"
  makedirs_ok :: "string \<Rightarrow> bool"
  spawn :: "string list \<Rightarrow> string dict \<Rightarrow> string \<Rightarrow> child option"
  getpgid :: "int \<Rightarrow> int option"
  popen_kill_sig :: sig_result
  killpg_sig :: sig_result
  kill_sig :: sig_result

text \<open>\<open>os.pathsep\<close> on POSIX (the code imports the \<open>posix\<close> module).\<close>

definition pathsep :: string where
  "pathsep = '':''"

fun join_str :: "string \<Rightarrow> string list \<Rightarrow> string" where
  "join_str sep [] = []"
| "join_str sep [x] = x"
| "join_str sep (x # y # ys) = x @ sep @ join_str sep (y # ys)"

section \<open>Command (command.py)\<close>

text \<open>
  A \<open>Command\<close> object.  Objects live in a heap (a list indexed by address) so
  that what \<open>bake\<close> writes, and to which object, is explicit.
\<close>

record Command =
  command :: string
  search_paths :: "string list option"
  options :: "pyval dict"
  args :: "string list"
  kwargs :: "pyval dict"

type_synonym heap = "Command list"

definition DEFAULT_OPTIONS :: "pyval dict" where
  "DEFAULT_OPTIONS =
     [(''fg'', PBool False),
      (''in'', PNone),
      (''out'', PNone),
      (''err'', PNone),
      (''kwargs_sep'', PStr '' ''),
      (''kwargs_prefix'', PStr ''--'')]"

text \<open>
  \<open>Command.__init__\<close>: resolve the executable, raise \<open>CommandNotFound(command)\<close>
  when \<open>shutil.which\<close> finds nothing, otherwise allocate the object with a copy
  of the default options and empty arguments.
\<close>

definition Command_init ::
  "os_api \<Rightarrow> heap \<Rightarrow> string \<Rightarrow> string list option \<Rightarrow> (error + nat) \<times> heap" where
  "Command_init os h cmd sp =
     (let path = (case sp of None \<Rightarrow> None | Some ps \<Rightarrow> Some (join_str pathsep ps)) in
      case which os cmd path of
        None \<Rightarrow> (Inl (CommandNotFound cmd), h)
      | Some found \<Rightarrow>
          (Inr (length h),
           h @ [\<lparr>command = found, search_paths = sp, options = DEFAULT_OPTIONS,
                 args = [], kwargs = []\<rparr>]))"

text \<open>
  The loop of \<open>bake\<close> over \<open>DEFAULT_OPTIONS\<close>: every keyword argument named
  \<open>_option\<close> is moved from \<open>kwargs\<close> into \<open>options\<close>.
\<close>

fun filter_options ::
  "string list \<Rightarrow> pyval dict \<Rightarrow> pyval dict \<Rightarrow> pyval dict \<times> pyval dict" where
  "filter_options [] opts kw = (opts, kw)"
| "filter_options (option # rest) opts kw =
     (let key = ''_'' @ option in
      case dict_get kw key of
        Some v \<Rightarrow> filter_options rest (dict_set opts option v) (dict_pop kw key)
      | None \<Rightarrow> filter_options rest opts kw)"

text \<open>
  \<open>Command.bake\<close>.  The new object is built by \<open>Command.__init__\<close> (which
  resolves the executable again and may raise), then its three fields are
  assigned in the order of the source; each right-hand side reads \<open>self\<close> from
  the heap as it is at that point.
\<close>

definition bake ::
  "os_api \<Rightarrow> heap \<Rightarrow> nat \<Rightarrow> string list \<Rightarrow> pyval dict \<Rightarrow> (error + nat) \<times> heap" where
  "bake os h self a kw =
     (case Command_init os h (command (h ! self)) (search_paths (h ! self)) of
        (Inl e, h1) \<Rightarrow> (Inl e, h1)
      | (Inr cmd, h1) \<Rightarrow>
          (let h2 = h1[cmd := (h1 ! cmd)\<lparr>args := args (h1 ! self) @ a\<rparr>];
               (opts, kw') = filter_options (dict_keys DEFAULT_OPTIONS) [] kw;
               h3 = h2[cmd := (h2 ! cmd)\<lparr>kwargs := dict_update (kwargs (h2 ! self)) kw'\<rparr>];
               h4 = h3[cmd := (h3 ! cmd)\<lparr>options := dict_update (options (h3 ! self)) opts\<rparr>]
           in (Inr cmd, h4)))"

text \<open>
  \<open>Command.command_list\<close>.  \<open>self._options[...]\<close> raises \<open>KeyError\<close> on a
  missing key.  With the separator \<open>" "\<close> the value itself is appended after
  the prefixed key; otherwise one formatted token is appended.
\<close>

fun render_kwargs :: "pyval \<Rightarrow> pyval \<Rightarrow> pyval dict \<Rightarrow> pyval list" where
  "render_kwargs sep prefix [] = []"
| "render_kwargs sep prefix ((key, v) # rest) =
     (if sep = PStr '' ''
      then [PStr (py_str prefix @ key), v] @ render_kwargs sep prefix rest
      else [PStr (py_str prefix @ key @ py_str sep @ py_str v)] @ render_kwargs sep prefix rest)"

definition command_list :: "Command \<Rightarrow> error + pyval list" where
  "command_list c =
     (case dict_get (options c) ''kwargs_sep'' of
        None \<Rightarrow> Inl KeyError
      | Some sep \<Rightarrow>
          (case dict_get (options c) ''kwargs_prefix'' of
             None \<Rightarrow> Inl KeyError
           | Some prefix \<Rightarrow>
               Inr ([PStr (command c)] @ map PStr (args c) @ render_kwargs sep prefix (kwargs c))))"

section \<open>Process (process.py)\<close>

text \<open>
  The part of the machine the library observes: the clock read by
  \<open>time.time()\<close> (in seconds), the working directory of the interpreter, the
  directories and files that exist, \<open>os.environ\<close>, and the pids of the
  children spawned so far.
\<close>

record world =
  clock :: rat
  cwd :: string
  dirs :: "string list"
  files :: "bytes dict"
  environ :: "string dict"
  children :: "int list"

text \<open>
  What \<open>start\<close> stores in \<open>_stdout_writer\<close> and \<open>_stderr_writer\<close>:
  \<open>subprocess.PIPE\<close> or a file object opened for binary writing.  The
  attribute itself may also be \<open>None\<close>, hence \<open>writer option\<close>.
\<close>

datatype writer = PIPE | FileWriter string

datatype thread = Started | Joined

text \<open>
  A \<open>subprocess.Popen\<close> object together with the state of the child it
  stands for.  \<open>finish_time\<close> is the instant at which the child is gone and
  the waiter thread's \<open>Popen.wait()\<close> has set \<open>returncode\<close> (\<open>None\<close>: the
  child runs forever); \<open>popen_stdout\<close> and \<open>popen_stderr\<close> are the pipes
  with the pieces not read so far, \<open>None\<close> where \<open>Popen\<close> created no pipe.
\<close>

record popen =
  popen_pid :: int
  finish_time :: "rat option"
  finish_code :: int
  stdin_buffer :: bytes
  stdin_pipe :: bytes
  popen_stdout :: "pipe option"
  popen_stderr :: "pipe option"

record Process =
  pcommand :: "pyval list"
  process :: "popen option"
  wait_thread :: "thread option"
  stdout :: "string option"
  stderr :: "string option"
  demux :: bool
  stdout_writer :: "writer option"
  stderr_writer :: "writer option"
  working_dir :: string
  environment :: "string dict option"
  encoding :: string

text \<open>
  \<open>Process.__init__\<close>.  The default of \<open>encoding\<close> is \<open>consts.encoding\<close>,
  a constant of a module that is not part of the sources at hand; the encoding
  is therefore always passed.  \<open>working_dir or os.getcwd()\<close> takes the current
  directory for \<open>None\<close> and for the empty string.
\<close>

definition Process_init ::
  "os_api \<Rightarrow> world \<Rightarrow> pyval list \<Rightarrow> string option \<Rightarrow> string option \<Rightarrow> bool \<Rightarrow>
   string dict option \<Rightarrow> string option \<Rightarrow> string \<Rightarrow> Process" where
  "Process_init os w cmd out err dm env wd enc =
     \<lparr>pcommand = cmd,
      process = None,
      wait_thread = None,
      stdout = (case out of None \<Rightarrow> None | Some f \<Rightarrow> Some (abspath os (cwd w) f)),
      stderr = (case err of None \<Rightarrow> None | Some f \<Rightarrow> Some (abspath os (cwd w) f)),
      demux = dm,
      stdout_writer = None,
      stderr_writer = None,
      working_dir = (case wd of None \<Rightarrow> cwd w | Some d \<Rightarrow> if d = [] then cwd w else d),
      environment = env,
      encoding = enc\<rparr>"

text \<open>The property \<open>Process.command\<close>: \<open>self._command[0]\<close>.\<close>

definition Process_command :: "Process \<Rightarrow> error + pyval" where
  "Process_command p = (case pcommand p of [] \<Rightarrow> Inl IndexError | c # cs \<Rightarrow> Inr c)"

definition create_env :: "world \<Rightarrow> string dict option \<Rightarrow> string dict" where
  "create_env w env =
     (case env of None \<Rightarrow> environ w | Some e \<Rightarrow> dict_update (environ w) e)"

text \<open>\<open>io.open(path, "wb")\<close>: fails with \<open>OSError\<close> or creates/truncates the file.\<close>

definition io_open_wb :: "os_api \<Rightarrow> world \<Rightarrow> string \<Rightarrow> error + world" where
  "io_open_wb os w path =
     (if open_wb_ok os path then Inr (w\<lparr>files := dict_set (files w) path []\<rparr>)
      else Inl OSError)"

fun to_strs :: "pyval list \<Rightarrow> string list option" where
  "to_strs [] = Some []"
| "to_strs (PStr s # vs) = (case to_strs vs of None \<Rightarrow> None | Some ss \<Rightarrow> Some (s # ss))"
| "to_strs (v # vs) = None"

text \<open>
  What the child gets for a stream, by the value passed to \<open>Popen\<close>:
  \<open>None\<close> leaves the stream of the parent in place, \<open>PIPE\<close> creates a new
  pipe, a file object redirects into that file.
\<close>

datatype stream_target = Inherited | NewPipe | ToFile string

fun popen_stream :: "writer option \<Rightarrow> stream_target" where
  "popen_stream None = Inherited"
| "popen_stream (Some PIPE) = NewPipe"
| "popen_stream (Some (FileWriter f)) = ToFile f"

text \<open>
  \<open>subprocess.Popen(args, stdin=PIPE, stdout=out, stderr=err, env=env, cwd=dir)\<close>:
  \<open>IndexError\<close> for an empty argument vector, \<open>TypeError\<close> for an argument that
  is not a string, \<open>OSError\<close> when the spawn fails.  A successful spawn
  enters the child into the process table.  What the child writes to a file or
  to an inherited stream is not tracked.
\<close>

definition Popen ::
  "os_api \<Rightarrow> world \<Rightarrow> pyval list \<Rightarrow> writer option \<Rightarrow> writer option \<Rightarrow> string dict \<Rightarrow>
   string \<Rightarrow> error + popen \<times> world" where
  "Popen os w argv out err env dir =
     (case argv of
        [] \<Rightarrow> Inl IndexError
      | a # as \<Rightarrow>
          (case to_strs argv of
             None \<Rightarrow> Inl TypeError
           | Some ss \<Rightarrow>
               (case spawn os ss env dir of
                  None \<Rightarrow> Inl OSError
                | Some c \<Rightarrow>
                    Inr (\<lparr>popen_pid = child_pid c,
                         finish_time =
                           (case child_runtime c of None \<Rightarrow> None
                            | Some d \<Rightarrow> Some (clock w + d)),
                         finish_code = child_status c,
                         stdin_buffer = [],
                         stdin_pipe = [],
                         popen_stdout =
                           (if popen_stream out = NewPipe
                            then Some (map (\<lambda>(d, b). (clock w + d, b)) (child_out c))
                            else None),
                         popen_stderr =
                           (if popen_stream err = NewPipe
                            then Some (map (\<lambda>(d, b). (clock w + d, b)) (child_err c))
                            else None)\<rparr>,
                         w\<lparr>children := child_pid c # children w\<rparr>))))"

text \<open>
  \<open>Process.start\<close>.  The two writers are set up first (an \<open>OSError\<close> of
  \<open>io.open\<close> propagates); in the branch for \<open>demux = False\<close> the source
  assigns \<open>self._stderr_writer\<close> to itself.  Only an \<open>OSError\<close> of \<open>Popen\<close>
  is turned into \<open>CommandNotFound\<close>.
\<close>

definition not_found_message :: "pyval \<Rightarrow> string" where
  "not_found_message c =
     ''Executable '' @ [CHR 0x22] @ py_str c @ [CHR 0x22] @ '' not found''"

definition start :: "os_api \<Rightarrow> world \<Rightarrow> Process \<Rightarrow> (error + unit) \<times> Process \<times> world" where
  "start os w p =
     (case (case stdout p of None \<Rightarrow> Inr (PIPE, w)
            | Some f \<Rightarrow> (case io_open_wb os w f of Inl e \<Rightarrow> Inl e
                         | Inr w' \<Rightarrow> Inr (FileWriter f, w'))) of
        Inl e \<Rightarrow> (Inl e, p, w)
      | Inr (ow, w1) \<Rightarrow>
          (let p1 = p\<lparr>stdout_writer := Some ow\<rparr> in
           case (if demux p1
                 then (case stderr p1 of None \<Rightarrow> Inr (Some PIPE, w1)
                       | Some f \<Rightarrow> (case io_open_wb os w1 f of Inl e \<Rightarrow> Inl e
                                    | Inr w' \<Rightarrow> Inr (Some (FileWriter f), w')))
                 else Inr (stderr_writer p1, w1)) of
             Inl e \<Rightarrow> (Inl e, p1, w1)
           | Inr (ew, w2) \<Rightarrow>
               (let p2 = p1\<lparr>stderr_writer := ew\<rparr> in
                case Popen os w2 (pcommand p2) (stdout_writer p2) (stderr_writer p2)
                       (create_env w2 (environment p2)) (working_dir p2) of
                  Inl e \<Rightarrow>
                    (if e = OSError
                     then (case Process_command p2 of
                             Inl e' \<Rightarrow> (Inl e', p2, w2)
                           | Inr c \<Rightarrow> (Inl (CommandNotFound (not_found_message c)), p2, w2))
                     else (Inl e, p2, w2))
                | Inr (h, w3) \<Rightarrow>
                    (Inr (), p2\<lparr>process := Some h, wait_thread := Some Started\<rparr>, w3))))"

text \<open>\<open>Popen.returncode\<close> as the clock stands, and the three properties.\<close>

definition returncode :: "world \<Rightarrow> popen \<Rightarrow> int option" where
  "returncode w h =
     (case finish_time h of
        None \<Rightarrow> None
      | Some t \<Rightarrow> if t \<le> clock w then Some (finish_code h) else None)"

definition is_running :: "world \<Rightarrow> Process \<Rightarrow> bool" where
  "is_running w p =
     (case process p of
        None \<Rightarrow> False
      | Some h \<Rightarrow> (case returncode w h of None \<Rightarrow> True | Some c \<Rightarrow> False))"

definition pid :: "world \<Rightarrow> Process \<Rightarrow> error + int option" where
  "pid w p =
     (if is_running w p
      then (case process p of None \<Rightarrow> Inl AttributeError | Some h \<Rightarrow> Inr (Some (popen_pid h)))
      else Inr None)"

definition exit_code :: "world \<Rightarrow> Process \<Rightarrow> error + int option" where
  "exit_code w p =
     (if is_running w p then Inr None
      else (case process p of None \<Rightarrow> Inl AttributeError | Some h \<Rightarrow> Inr (returncode w h)))"

text \<open>
  \<open>Process.wait\<close>.  \<open>time.sleep(0.1)\<close> advances the clock by a tenth of a
  second.  With a timeout the loop runs while
  \<open>time.time() - current_time < timeout * 1000\<close>; without one it runs while the
  process is running, possibly forever (\<open>None\<close>).
\<close>

definition sleep :: "rat \<Rightarrow> world \<Rightarrow> world" where
  "sleep d w = w\<lparr>clock := clock w + d\<rparr>"

function wait_until :: "Process \<Rightarrow> rat \<Rightarrow> rat \<Rightarrow> world \<Rightarrow> bool \<times> world" where
  "wait_until p current_time timeout w =
     (if clock w - current_time < timeout * 1000
      then (if is_running w p
            then wait_until p current_time timeout (sleep (1 / 10) w)
            else (True, w))
      else (False, w))"
  by pat_completeness auto
termination
proof (relation "measure (\<lambda>(p, ct, t, w). nat \<lceil>(t * 1000 - (clock w - ct)) * 10\<rceil>)")
  show "wf (measure (\<lambda>(p, ct, t, w). nat \<lceil>(t * 1000 - (clock w - ct)) * 10\<rceil>))"
    by simp
next
  fix p :: Process and current_time timeout :: rat and w :: world
  assume lt: "clock w - current_time < timeout * 1000"
  define x where "x = (timeout * 1000 - (clock w - current_time)) * 10"
  have pos: "0 < x" using lt by (simp add: x_def)
  have step: "(timeout * 1000 - (clock (sleep (1 / 10) w) - current_time)) * 10 = x - 1"
    by (simp add: x_def sleep_def algebra_simps)
  have "\<lceil>x - 1\<rceil> = \<lceil>x\<rceil> - 1" by simp
  moreover have "0 < \<lceil>x\<rceil>" using pos by simp
  ultimately have less: "nat \<lceil>x - 1\<rceil> < nat \<lceil>x\<rceil>" by simp
  have "nat \<lceil>(timeout * 1000 - (clock (sleep (1 / 10) w) - current_time)) * 10\<rceil>
      < nat \<lceil>(timeout * 1000 - (clock w - current_time)) * 10\<rceil>"
    unfolding step using less unfolding x_def .
  then show "((p, current_time, timeout, sleep (1 / 10) w), (p, current_time, timeout, w))
      \<in> measure (\<lambda>(p, ct, t, w). nat \<lceil>(t * 1000 - (clock w - ct)) * 10\<rceil>)"
    by (simp only: in_measure split_conv)
qed

declare wait_until.simps [simp del]

partial_function (option) wait_forever :: "Process \<Rightarrow> world \<Rightarrow> (bool \<times> world) option" where
  "wait_forever p w =
     (if is_running w p then wait_forever p (sleep (1 / 10) w) else Some (True, w))"

definition wait :: "rat option \<Rightarrow> world \<Rightarrow> Process \<Rightarrow> (bool \<times> world) option" where
  "wait timeout w p =
     (case timeout of
        Some t \<Rightarrow> Some (wait_until p (clock w) t w)
      | None \<Rightarrow> wait_forever p w)"

text \<open>
  Delivery of \<open>SIGKILL\<close> to the child: it is gone after the latency, with
  status \<open>-9\<close>, unless it finishes before that on its own.
\<close>

definition deliver :: "rat \<Rightarrow> world \<Rightarrow> popen \<Rightarrow> popen" where
  "deliver d w h =
     (let t = clock w + max 0 d in
      case finish_time h of
        None \<Rightarrow> h\<lparr>finish_time := Some t, finish_code := - 9\<rparr>
      | Some t' \<Rightarrow> if t' \<le> t then h else h\<lparr>finish_time := Some t, finish_code := - 9\<rparr>)"

definition send_kill :: "sig_result \<Rightarrow> world \<Rightarrow> popen \<Rightarrow> error + popen" where
  "send_kill r w h =
     (case r of SigFails \<Rightarrow> Inl OSError | SigDelivered d \<Rightarrow> Inr (deliver d w h))"

text \<open>\<open>Popen.kill()\<close>: nothing is sent once \<open>returncode\<close> is set.\<close>

definition Popen_kill :: "os_api \<Rightarrow> world \<Rightarrow> popen \<Rightarrow> error + popen" where
  "Popen_kill os w h =
     (case returncode w h of
        Some c \<Rightarrow> Inr h
      | None \<Rightarrow> send_kill (popen_kill_sig os) w h)"

text \<open>
  The block under \<open>if self.is_running:\<close> in \<open>kill\<close>: the signal goes to the
  process group when the child leads it, to the child alone otherwise.
  \<open>posix.getpgid(None)\<close> would be a \<open>TypeError\<close>.
\<close>

definition force_kill :: "os_api \<Rightarrow> world \<Rightarrow> Process \<Rightarrow> error + Process" where
  "force_kill os w p =
     (if is_running w p
      then (case pid w p of
              Inl e \<Rightarrow> Inl e
            | Inr None \<Rightarrow> Inl TypeError
            | Inr (Some n) \<Rightarrow>
                (case getpgid os n of
                   None \<Rightarrow> Inl OSError
                 | Some g \<Rightarrow>
                     (case process p of
                        None \<Rightarrow> Inr p
                      | Some h \<Rightarrow>
                          (case send_kill (if n = g then killpg_sig os else kill_sig os) w h of
                             Inl e \<Rightarrow> Inl e
                           | Inr h' \<Rightarrow> Inr (p\<lparr>process := Some h'\<rparr>)))))
      else Inr p)"

text \<open>
  \<open>self._wait_thread.join()\<close>.  The waiter thread runs \<open>__process_wait\<close>:
  it blocks in \<open>Popen.wait()\<close> until the child is gone and then closes the
  file-backed writers, so joining it returns once the child has finished and
  never if it does not (\<open>None\<close>).  Without a thread the attribute access
  fails.
\<close>

definition thread_join :: "world \<Rightarrow> Process \<Rightarrow> (error + Process \<times> world) option" where
  "thread_join w p =
     (case wait_thread p of
        None \<Rightarrow> Some (Inl AttributeError)
      | Some Joined \<Rightarrow> Some (Inr (p, w))
      | Some Started \<Rightarrow>
          (case process p of
             None \<Rightarrow> Some (Inr (p\<lparr>wait_thread := Some Joined\<rparr>, w))
           | Some h \<Rightarrow>
               (case finish_time h of
                  None \<Rightarrow> None
                | Some t \<Rightarrow>
                    Some (Inr (p\<lparr>wait_thread := Some Joined\<rparr>,
                               w\<lparr>clock := max (clock w) t\<rparr>)))))"

text \<open>
  \<open>Process.kill\<close>.  \<open>except OSError: return False\<close> catches \<open>OSError\<close> only;
  any other exception leaves the method.
\<close>

definition kill_except :: "error \<Rightarrow> error + bool option" where
  "kill_except e = (if e = OSError then Inr (Some False) else Inl e)"

definition kill ::
  "os_api \<Rightarrow> world \<Rightarrow> Process \<Rightarrow> ((error + bool option) \<times> Process \<times> world) option" where
  "kill os w p =
     (case process p of
        None \<Rightarrow> Some (Inr None, p, w)
      | Some h \<Rightarrow>
          (case Popen_kill os w h of
             Inl e \<Rightarrow> Some (kill_except e, p, w)
           | Inr h1 \<Rightarrow>
               (let p1 = p\<lparr>process := Some h1\<rparr> in
                case wait (Some (1 / 2)) w p1 of
                  None \<Rightarrow> None
                | Some (b, w1) \<Rightarrow>
                    (case force_kill os w1 p1 of
                       Inl e \<Rightarrow> Some (kill_except e, p1, w1)
                     | Inr p2 \<Rightarrow>
                         (case thread_join w1 p2 of
                            None \<Rightarrow> None
                          | Some (Inl e) \<Rightarrow> Some (kill_except e, p2, w1)
                          | Some (Inr (p3, w2)) \<Rightarrow>
                              Some (Inr (Some True), p3\<lparr>process := None\<rparr>, w2))))))"

text \<open>
  \<open>Process.write\<close>.  \<open>string[-1]\<close> is evaluated first and raises
  \<open>IndexError\<close> on the empty string.  The encoded text goes into the buffer of
  \<open>stdin\<close>; \<open>flush()\<close> moves the buffer into the pipe and fails with
  \<open>OSError\<close> (a broken pipe) when the child is gone.
\<close>

definition Process_write :: "os_api \<Rightarrow> world \<Rightarrow> Process \<Rightarrow> string \<Rightarrow> (error + unit) \<times> Process" where
  "Process_write os w p s =
     (case s of
        [] \<Rightarrow> (Inl IndexError, p)
      | c # cs \<Rightarrow>
          (let s1 = (if last s \<noteq> CHR 0x0A then s @ [CHR 0x0A] else s) in
           case process p of
             None \<Rightarrow> (Inl AttributeError, p)
           | Some h \<Rightarrow>
               (case str_encode os (encoding p) s1 of
                  Inl e \<Rightarrow> (Inl e, p)
                | Inr b \<Rightarrow>
                    (let h1 = h\<lparr>stdin_buffer := stdin_buffer h @ b\<rparr> in
                     case returncode w h1 of
                       Some rc \<Rightarrow> (Inl OSError, p\<lparr>process := Some h1\<rparr>)
                     | None \<Rightarrow>
                         (Inr (),
                          p\<lparr>process :=
                              Some (h1\<lparr>stdin_pipe := stdin_pipe h1 @ stdin_buffer h1,
                                       stdin_buffer := []\<rparr>)\<rparr>)))))"

text \<open>
  Reading a file opened with \<open>io.open(path, "r", encoding=...)\<close>: the whole
  contents, decoded, with universal newlines (CR LF and CR become LF).  A missing file is an \<open>OSError\<close>.
\<close>

fun universal_newlines :: "string \<Rightarrow> string" where
  "universal_newlines [] = []"
| "universal_newlines [c] = (if c = CHR 0x0D then [CHR 0x0A] else [c])"
| "universal_newlines (c # d # cs) =
     (if c = CHR 0x0D
      then (if d = CHR 0x0A then CHR 0x0A # universal_newlines cs
            else CHR 0x0A # universal_newlines (d # cs))
      else c # universal_newlines (d # cs))"

definition read_text_file :: "os_api \<Rightarrow> world \<Rightarrow> string \<Rightarrow> string \<Rightarrow> error + string" where
  "read_text_file os w path enc =
     (case dict_get (files w) path of
        None \<Rightarrow> Inl OSError
      | Some b \<Rightarrow>
          (case bytes_decode os enc b of
             Inl e \<Rightarrow> Inl e
           | Inr s \<Rightarrow> Inr (universal_newlines s)))"

text \<open>
  The bytes that are in a pipe at the present time: the pieces written so far.
\<close>

definition pipe_buffered :: "world \<Rightarrow> pipe \<Rightarrow> bytes" where
  "pipe_buffered w chunks = concat (map snd (filter (\<lambda>c. fst c \<le> clock w) chunks))"

text \<open>
  \<open>.read()\<close> on the pipe of a child, without a size: it reads up to the end of
  file, which comes when the child is gone.  The call blocks until then (for
  ever, if the child never ends: \<open>None\<close>) and returns every piece the child
  wrote before it ended.
\<close>

definition pipe_read :: "world \<Rightarrow> popen \<Rightarrow> pipe \<Rightarrow> (bytes \<times> world) option" where
  "pipe_read w h chunks =
     (case finish_time h of
        None \<Rightarrow> None
      | Some t \<Rightarrow>
          Some (concat (map snd (filter (\<lambda>c. fst c \<le> t) chunks)),
                w\<lparr>clock := max (clock w) t\<rparr>))"

text \<open>
  \<open>Process.read\<close> and \<open>Process.eread\<close>.  Where there is no process or no
  pipe the attribute access fails; after a read the pipe is at its end.
\<close>

definition read ::
  "os_api \<Rightarrow> world \<Rightarrow> Process \<Rightarrow> ((error + string) \<times> Process \<times> world) option" where
  "read os w p =
     (case stdout p of
        None \<Rightarrow>
          (case process p of
             None \<Rightarrow> Some (Inl AttributeError, p, w)
           | Some h \<Rightarrow>
               (case popen_stdout h of
                  None \<Rightarrow> Some (Inl AttributeError, p, w)
                | Some chunks \<Rightarrow>
                    (case pipe_read w h chunks of
                       None \<Rightarrow> None
                     | Some (b, w') \<Rightarrow>
                         Some (bytes_decode os (encoding p) b,
                               p\<lparr>process := Some (h\<lparr>popen_stdout := Some []\<rparr>)\<rparr>, w'))))
      | Some f \<Rightarrow> Some (read_text_file os w f (encoding p), p, w))"

definition eread ::
  "os_api \<Rightarrow> world \<Rightarrow> Process \<Rightarrow> ((error + string) \<times> Process \<times> world) option" where
  "eread os w p =
     (if demux p
      then (case stderr p of
              None \<Rightarrow>
                (case process p of
                   None \<Rightarrow> Some (Inl AttributeError, p, w)
                 | Some h \<Rightarrow>
                     (case popen_stderr h of
                        None \<Rightarrow> Some (Inl AttributeError, p, w)
                      | Some chunks \<Rightarrow>
                          (case pipe_read w h chunks of
                             None \<Rightarrow> None
                           | Some (b, w') \<Rightarrow>
                               Some (bytes_decode os (encoding p) b,
                                     p\<lparr>process := Some (h\<lparr>popen_stderr := Some []\<rparr>)\<rparr>,
                                     w'))))
            | Some f \<Rightarrow> Some (read_text_file os w f (encoding p), p, w))
      else Some (Inr [], p, w))"

section \<open>Invoking a command (command.py)\<close>

text \<open>
  \<open>Command.__call__\<close>: bake, build a \<open>Process\<close> from the rendered argument
  vector with the defaults of its constructor, start it and return it.
\<close>

definition Command_call ::
  "os_api \<Rightarrow> string \<Rightarrow> world \<Rightarrow> heap \<Rightarrow> nat \<Rightarrow> string list \<Rightarrow> pyval dict \<Rightarrow>
   (error + Process) \<times> heap \<times> world" where
  "Command_call os enc w h self a kw =
     (case bake os h self a kw of
        (Inl e, h1) \<Rightarrow> (Inl e, h1, w)
      | (Inr c, h1) \<Rightarrow>
          (case command_list (h1 ! c) of
             Inl e \<Rightarrow> (Inl e, h1, w)
           | Inr toks \<Rightarrow>
               (case start os w (Process_init os w toks None None True None None enc) of
                  (Inl e, p, w') \<Rightarrow> (Inl e, h1, w')
                | (Inr u, p, w') \<Rightarrow> (Inr p, h1, w'))))"

section \<open>Scoped change of directory (contexts.py)\<close>

text \<open>
  \<open>os.chdir\<close> fails with \<open>OSError\<close> unless the directory exists;
  \<open>os.makedirs(path, exist_ok=True)\<close> fails or makes \<open>path\<close> exist.
\<close>

definition chdir :: "world \<Rightarrow> string \<Rightarrow> error + world" where
  "chdir w path = (if path \<in> set (dirs w) then Inr (w\<lparr>cwd := path\<rparr>) else Inl OSError)"

definition makedirs :: "os_api \<Rightarrow> world \<Rightarrow> string \<Rightarrow> error + world" where
  "makedirs os w path =
     (if makedirs_ok os path then Inr (w\<lparr>dirs := List.insert path (dirs w)\<rparr>)
      else Inl OSError)"

text \<open>
  \<open>with pushd(path, create): body\<close>.  The generator records \<open>os.getcwd()\<close>,
  makes the path absolute, creates it on request and changes into it; an
  exception up to here leaves before the block runs.  The block is any
  computation on the world that returns or raises.  The \<open>finally\<close> clause then
  changes back to the recorded directory, on both outcomes; if that
  \<open>os.chdir\<close> raises, its exception is what leaves the statement.  The
  re-entrant lock of \<open>with_lock\<close> has no effect within one thread.
\<close>

definition pushd ::
  "os_api \<Rightarrow> string \<Rightarrow> bool \<Rightarrow> (world \<Rightarrow> (error + 'a) \<times> world) \<Rightarrow> world \<Rightarrow>
   (error + 'a) \<times> world" where
  "pushd os path create body w =
     (let cwd0 = cwd w; path' = abspath os cwd0 path in
      case (if create then makedirs os w path' else Inr w) of
        Inl e \<Rightarrow> (Inl e, w)
      | Inr w1 \<Rightarrow>
          (case chdir w1 path' of
             Inl e \<Rightarrow> (Inl e, w1)
           | Inr w2 \<Rightarrow>
               (case body w2 of
                  (r, w3) \<Rightarrow>
                    (case chdir w3 cwd0 of
                       Inl e \<Rightarrow> (Inl e, w3)
                     | Inr w4 \<Rightarrow> (r, w4)))))"

section \<open>Notions used in the statements\<close>

text \<open>
  Every \<open>Process\<close> that holds a native handle also holds its waiter thread:
  \<open>start\<close> sets both, \<open>kill\<close> clears only the handle.
\<close>

definition has_waiter :: "Process \<Rightarrow> bool" where
  "has_waiter p =
     (case process p of
        None \<Rightarrow> True
      | Some h \<Rightarrow> (case wait_thread p of None \<Rightarrow> False | Some t \<Rightarrow> True))"

text \<open>
  An operating-system call of the kill sequence fails: the signal sent by
  \<open>Popen.kill()\<close>, or, after the bounded wait, \<open>getpgid\<close> or the second
  signal.
\<close>

definition kill_os_error :: "os_api \<Rightarrow> world \<Rightarrow> Process \<Rightarrow> bool" where
  "kill_os_error os w p =
     (case process p of
        None \<Rightarrow> False
      | Some h \<Rightarrow>
          (case Popen_kill os w h of
             Inl e \<Rightarrow> True
           | Inr h1 \<Rightarrow>
               (case force_kill os
                       (snd (wait_until (p\<lparr>process := Some h1\<rparr>) (clock w) (1 / 2) w))
                       (p\<lparr>process := Some h1\<rparr>) of
                  Inl e \<Rightarrow> True
                | Inr p2 \<Rightarrow> False)))"

text \<open>
  The \<open>path\<close> argument that \<open>Command.__init__\<close> hands to
  \<open>shutil.which\<close>.
\<close>

definition search_path :: "string list option \<Rightarrow> string option" where
  "search_path sp = (case sp of None \<Rightarrow> None | Some ps \<Rightarrow> Some (join_str pathsep ps))"

text \<open>
  For the scoped change of directory: whether \<open>pushd\<close> gets into the
  target (the directory is created, or is there already), and the world in
  which the block then starts.
\<close>

definition pushd_can_enter :: "os_api \<Rightarrow> string \<Rightarrow> bool \<Rightarrow> world \<Rightarrow> bool" where
  "pushd_can_enter os path create w =
     (if create then makedirs_ok os (abspath os (cwd w) path)
      else abspath os (cwd w) path \<in> set (dirs w))"

definition pushd_entered :: "os_api \<Rightarrow> string \<Rightarrow> bool \<Rightarrow> world \<Rightarrow> world" where
  "pushd_entered os path create w =
     (if create
      then w\<lparr>dirs := List.insert (abspath os (cwd w) path) (dirs w),
             cwd := abspath os (cwd w) path\<rparr>
      else w\<lparr>cwd := abspath os (cwd w) path\<rparr>)"

section \<open>A concrete machine\<close>

text \<open>
  A small machine on which the operations are run: \<open>ls\<close> is the only
  executable on the search path, every spawned child has pid 4242, writes
  \<open>hi\<close> to its standard output and \<open>!\<close> to its standard error after half a
  second, \<open>x\<close> to its standard error after 1.2 seconds, and ends after one and
  a half seconds; every signal is delivered at once.
\<close>

definition example_os :: os_api where
  "example_os =
     \<lparr>which = (\<lambda>c path. if c = ''ls'' then Some ''/bin/ls''
                        else if c = ''/bin/ls'' then Some ''/bin/ls'' else None),
      abspath = (\<lambda>d f. d @ ''/'' @ f),
      str_encode = (\<lambda>enc s. Inr (map of_char s)),
      bytes_decode = (\<lambda>enc b. Inr (map (\<lambda>x. char_of (unat x)) b)),
      open_wb_ok = (\<lambda>f. True),
      makedirs_ok = (\<lambda>f. True),
      spawn = (\<lambda>argv env dir.
                 Some \<lparr>child_pid = 4242, child_runtime = Some (3 / 2), child_status = 0,
                       child_out = [(1 / 2, [104, 105])],
                       child_err = [(1 / 2, [33]), (6 / 5, [120])]\<rparr>),
      getpgid = (\<lambda>n. Some n),
      popen_kill_sig = SigDelivered 0,
      killpg_sig = SigDelivered 0,
      kill_sig = SigDelivered 0\<rparr>"

definition example_world :: world where
  "example_world =
     \<lparr>clock = 0, cwd = ''/home'', dirs = [''/home'', ''/home/a'', ''/home/a/b''],
      files = [], environ = [], children = []\<rparr>"

text \<open>The handle of the child of \<open>example_os\<close> spawned at time 0, with two pipes or one.\<close>

definition example_popen :: "bool \<Rightarrow> popen" where
  "example_popen err_pipe =
     \<lparr>popen_pid = 4242, finish_time = Some (3 / 2), finish_code = 0,
      stdin_buffer = [], stdin_pipe = [],
      popen_stdout = Some [(1 / 2, [104, 105])],
      popen_stderr = (if err_pipe then Some [(1 / 2, [33]), (6 / 5, [120])] else None)\<rparr>"

text \<open>\<open>Process(["sleep", "1.5"], demux=dm)\<close>, before and after \<open>start()\<close>.\<close>

definition example_process :: "bool \<Rightarrow> Process" where
  "example_process dm =
     Process_init example_os example_world [PStr ''sleep'', PStr ''1.5''] None None dm
       None None ''utf-8''"

definition example_started :: "bool \<Rightarrow> Process" where
  "example_started dm =
     (example_process dm)
       \<lparr>process := Some (example_popen dm), wait_thread := Some Started,
        stdout_writer := Some PIPE, stderr_writer := (if dm then Some PIPE else None)\<rparr>"

text \<open>
  The heap after \<open>Command("ls")\<close>, a block that raises, and a process whose
  standard error goes to the file \<open>err.log\<close>.
\<close>

definition example_heap :: heap where
  "example_heap =
     [\<lparr>command = ''/bin/ls'', search_paths = None, options = DEFAULT_OPTIONS,
       args = [], kwargs = []\<rparr>]"

definition example_raise :: "world \<Rightarrow> (error + unit) \<times> world" where
  "example_raise w = (Inl KeyError, w)"

definition example_logged :: Process where
  "example_logged =
     Process_init example_os example_world [PStr ''sleep'', PStr ''1.5''] None
       (Some ''err.log'') True None None ''utf-8''"

section \<open>Dictionaries\<close>

lemma dict_get_Nil: "dict_get [] k = None"
  by (simp add: dict_get_def)

lemma dict_get_Cons:
  "dict_get ((k', v') # e) k = (if k = k' then Some v' else dict_get e k)"
  by (simp add: dict_get_def)

lemma dict_get_set: "dict_get (dict_set d k v) k' = (if k' = k then Some v else dict_get d k')"
  by (induction d) (auto simp: dict_get_def)

lemma dict_get_update:
  "distinct (dict_keys e) \<Longrightarrow>
     dict_get (dict_update d e) k =
       (case dict_get e k of Some v \<Rightarrow> Some v | None \<Rightarrow> dict_get d k)"
proof (induction e arbitrary: d)
  case Nil
  then show ?case by (simp add: dict_get_def)
next
  case (Cons kv e)
  obtain k' v' where kv: "kv = (k', v')" by (cases kv)
  from Cons.prems kv have d: "distinct (dict_keys e)" and n: "k' \<notin> set (dict_keys e)"
    by (simp_all add: dict_keys_def)
  from n have none: "dict_get e k' = None"
    by (simp add: dict_get_def dict_keys_def map_of_eq_None_iff)
  have "dict_get (dict_update d (kv # e)) k =
      (case dict_get e k of Some v \<Rightarrow> Some v | None \<Rightarrow> dict_get (dict_set d k' v') k)"
    using Cons.IH [OF d, of "dict_set d k' v'"] kv by simp
  also have "\<dots> = (case dict_get (kv # e) k of Some v \<Rightarrow> Some v | None \<Rightarrow> dict_get d k)"
    using none by (simp add: kv dict_get_Cons dict_get_set split: option.splits)
  finally show ?case .
qed

lemma dict_get_pop: "dict_get (dict_pop d k) k' = (if k' = k then None else dict_get d k')"
  by (induction d) (auto simp: dict_get_def dict_pop_def)

lemma dict_keys_pop: "distinct (dict_keys d) \<Longrightarrow> distinct (dict_keys (dict_pop d k))"
  by (simp add: dict_keys_def dict_pop_def distinct_map_filter)

lemma dict_keys_set: "dict_keys (dict_set d k v) =
    (if k \<in> set (dict_keys d) then dict_keys d else dict_keys d @ [k])"
  by (induction d) (force simp: dict_keys_def)+

lemma distinct_dict_set: "distinct (dict_keys d) \<Longrightarrow> distinct (dict_keys (dict_set d k v))"
  by (simp add: dict_keys_set)

section \<open>Properties of Command\<close>

lemma Command_init_fail:
  "which os cmd (search_path sp) = None \<Longrightarrow>
     Command_init os h cmd sp = (Inl (CommandNotFound cmd), h)"
  by (simp add: Command_init_def search_path_def)

lemma Command_init_ok:
  "which os cmd (search_path sp) = Some found \<Longrightarrow>
     Command_init os h cmd sp =
       (Inr (length h),
        h @ [\<lparr>command = found, search_paths = sp, options = DEFAULT_OPTIONS,
              args = [], kwargs = []\<rparr>])"
  by (simp add: Command_init_def search_path_def)

lemma bake_fail:
  "which os (command (h ! self)) (search_path (search_paths (h ! self))) = None \<Longrightarrow>
     bake os h self a kw = (Inl (CommandNotFound (command (h ! self))), h)"
  by (simp add: bake_def Command_init_fail)

lemma bake_ok:
  assumes "self < length h"
    and "which os (command (h ! self)) (search_path (search_paths (h ! self))) = Some found"
  shows "bake os h self a kw =
     (Inr (length h),
      h @ [\<lparr>command = found, search_paths = search_paths (h ! self),
            options = dict_update (options (h ! self))
                        (fst (filter_options (dict_keys DEFAULT_OPTIONS) [] kw)),
            args = args (h ! self) @ a,
            kwargs = dict_update (kwargs (h ! self))
                       (snd (filter_options (dict_keys DEFAULT_OPTIONS) [] kw))\<rparr>])"
  using assms
  by (simp add: bake_def Command_init_ok Let_def nth_append split: prod.splits)

lemma filter_options_distinct:
  "distinct (dict_keys opts) \<Longrightarrow> distinct (dict_keys kw) \<Longrightarrow>
     distinct (dict_keys (fst (filter_options names opts kw))) \<and>
     distinct (dict_keys (snd (filter_options names opts kw)))"
  by (induction names opts kw rule: filter_options.induct)
     (auto simp: Let_def distinct_dict_set dict_keys_pop split: option.splits)

lemma filter_options_kwargs:
  "dict_get (snd (filter_options names opts kw)) k =
     (if k \<in> (\<lambda>n. ''_'' @ n) ` set names then None else dict_get kw k)"
  by (induction names opts kw rule: filter_options.induct)
     (auto simp: Let_def dict_get_pop split: option.splits)

lemma filter_options_options:
  "distinct names \<Longrightarrow>
     dict_get (fst (filter_options names opts kw)) n =
       (if n \<in> set names
        then (case dict_get kw (''_'' @ n) of Some v \<Rightarrow> Some v | None \<Rightarrow> dict_get opts n)
        else dict_get opts n)"
  by (induction names opts kw rule: filter_options.induct)
     (auto simp: Let_def dict_get_pop dict_get_set split: option.splits)

text \<open>
  C7: with the default prefix \<open>--\<close>, the argument vector is the executable,
  then the positional arguments, then the named arguments in the order of the
  dictionary; with the separator \<open>" "\<close> each entry \<open>key: value\<close> gives the two
  tokens \<open>--key\<close> and \<open>value\<close>, with the separator \<open>"="\<close> it gives the single
  token \<open>--key=value\<close>.
\<close>

theorem command_list_kwargs_rendering:
  assumes "dict_get (options c) ''kwargs_prefix'' = Some (PStr ''--'')"
  shows "(dict_get (options c) ''kwargs_sep'' = Some (PStr '' '') \<longrightarrow>
            command_list c =
              Inr (PStr (command c) # map PStr (args c) @
                   concat (map (\<lambda>(k, v). [PStr (''--'' @ k), v]) (kwargs c)))) \<and>
         (dict_get (options c) ''kwargs_sep'' = Some (PStr ''='') \<longrightarrow>
            command_list c =
              Inr (PStr (command c) # map PStr (args c) @
                   map (\<lambda>(k, v). PStr (''--'' @ k @ ''='' @ py_str v)) (kwargs c)))"
proof -
  have sp: "render_kwargs (PStr '' '') (PStr ''--'') kw =
      concat (map (\<lambda>(k, v). [PStr (''--'' @ k), v]) kw)" for kw
    by (induction kw) auto
  have eq: "render_kwargs (PStr ''='') (PStr ''--'') kw =
      map (\<lambda>(k, v). PStr (''--'' @ k @ ''='' @ py_str v)) kw" for kw
    by (induction kw) auto
  show ?thesis using assms by (simp add: command_list_def sp eq)
qed

theorem command_list_kwargs_rendering_witness:
  "command_list
     \<lparr>command = ''/bin/ls'', search_paths = None, options = DEFAULT_OPTIONS,
      args = [''-l''], kwargs = [(''key'', PStr ''value'')]\<rparr> =
     Inr [PStr ''/bin/ls'', PStr ''-l'', PStr ''--key'', PStr ''value''] \<and>
   command_list
     \<lparr>command = ''/bin/ls'', search_paths = None,
      options = dict_set DEFAULT_OPTIONS ''kwargs_sep'' (PStr ''=''),
      args = [''-l''], kwargs = [(''key'', PStr ''value'')]\<rparr> =
     Inr [PStr ''/bin/ls'', PStr ''-l'', PStr ''--key=value'']"
  using command_list_kwargs_rendering
      [of "\<lparr>command = ''/bin/ls'', search_paths = None, options = DEFAULT_OPTIONS,
            args = [''-l''], kwargs = [(''key'', PStr ''value'')]\<rparr>"]
    command_list_kwargs_rendering
      [of "\<lparr>command = ''/bin/ls'', search_paths = None,
            options = dict_set DEFAULT_OPTIONS ''kwargs_sep'' (PStr ''=''),
            args = [''-l''], kwargs = [(''key'', PStr ''value'')]\<rparr>"]
  by (simp add: DEFAULT_OPTIONS_def dict_get_def)

text \<open>
  C6: \<open>bake\<close> leaves every object that was on the heap as it was, the
  command it is called on included (so its rendered argument vector is the
  same before and after), and returns a new object whose positional arguments
  are those of the command followed by the new ones, and whose named arguments
  and options are those of the command updated with the new ones, a new value
  overriding the old one under the same name.  Keyword arguments named after
  an option (\<open>_fg\<close>, \<open>_in\<close>, \<open>_out\<close>, \<open>_err\<close>, \<open>_kwargs_sep\<close>,
  \<open>_kwargs_prefix\<close>) go to the options and not to the named arguments.
  The command is an object of the heap whose executable still resolves, as
  it did when the command was built; the keyword arguments of a call have
  distinct names.
\<close>

theorem bake_frame_and_merge:
  assumes "self < length h"
    and "which os (command (h ! self)) (search_path (search_paths (h ! self))) = Some found"
    and "distinct (dict_keys kw)"
  shows "\<exists>h'. bake os h self a kw = (Inr (length h), h') \<and>
           length h' = Suc (length h) \<and> take (length h) h' = h \<and>
           command_list (h' ! self) = command_list (h ! self) \<and>
           args (h' ! length h) = args (h ! self) @ a \<and>
           kwargs (h' ! length h) =
             dict_update (kwargs (h ! self))
               (snd (filter_options (dict_keys DEFAULT_OPTIONS) [] kw)) \<and>
           options (h' ! length h) =
             dict_update (options (h ! self))
               (fst (filter_options (dict_keys DEFAULT_OPTIONS) [] kw)) \<and>
           (\<forall>k. dict_get (kwargs (h' ! length h)) k =
              (if k \<in> (\<lambda>n. ''_'' @ n) ` set (dict_keys DEFAULT_OPTIONS)
               then dict_get (kwargs (h ! self)) k
               else (case dict_get kw k of
                       Some v \<Rightarrow> Some v | None \<Rightarrow> dict_get (kwargs (h ! self)) k))) \<and>
           (\<forall>n. dict_get (options (h' ! length h)) n =
              (if n \<in> set (dict_keys DEFAULT_OPTIONS)
               then (case dict_get kw (''_'' @ n) of
                       Some v \<Rightarrow> Some v | None \<Rightarrow> dict_get (options (h ! self)) n)
               else dict_get (options (h ! self)) n))"
proof -
  let ?names = "dict_keys DEFAULT_OPTIONS"
  let ?f = "filter_options ?names [] kw"
  have dn: "distinct ?names" by (simp add: dict_keys_def DEFAULT_OPTIONS_def)
  have "distinct (dict_keys ([] :: pyval dict))" by (simp add: dict_keys_def)
  from filter_options_distinct [OF this assms(3), of ?names]
  have d1: "distinct (dict_keys (fst ?f))" and d2: "distinct (dict_keys (snd ?f))"
    by simp_all
  have kwl: "dict_get (dict_update (kwargs (h ! self)) (snd ?f)) k =
      (if k \<in> (\<lambda>n. ''_'' @ n) ` set ?names
       then dict_get (kwargs (h ! self)) k
       else (case dict_get kw k of
               Some v \<Rightarrow> Some v | None \<Rightarrow> dict_get (kwargs (h ! self)) k))" for k
    by (simp add: dict_get_update [OF d2] filter_options_kwargs)
  have opl: "dict_get (dict_update (options (h ! self)) (fst ?f)) n =
      (if n \<in> set ?names
       then (case dict_get kw (''_'' @ n) of
               Some v \<Rightarrow> Some v | None \<Rightarrow> dict_get (options (h ! self)) n)
       else dict_get (options (h ! self)) n)" for n
    by (simp add: dict_get_update [OF d1] filter_options_options [OF dn] dict_get_Nil
        split: option.splits)
  show ?thesis
    unfolding bake_ok [OF assms(1,2)]
    using assms(1) kwl opl by (simp add: nth_append)
qed

theorem bake_frame_and_merge_witness:
  "(0::nat) < length example_heap \<and>
   (\<exists>h'. bake example_os example_heap 0 [''-l'']
            [(''key'', PStr ''value''), (''_kwargs_sep'', PStr ''='')] = (Inr 1, h') \<and>
      take 1 h' = example_heap \<and>
      command_list (h' ! 0) = Inr [PStr ''/bin/ls''] \<and>
      args (h' ! 1) = [''-l''] \<and>
      kwargs (h' ! 1) = [(''key'', PStr ''value'')] \<and>
      dict_get (options (h' ! 1)) ''kwargs_sep'' = Some (PStr ''='') \<and>
      dict_get (options (h' ! 1)) ''kwargs_prefix'' = Some (PStr ''--''))"
proof -
  have len: "length example_heap = 1" by (simp add: example_heap_def)
  have lt: "0 < length example_heap" by (simp add: len)
  have w: "which example_os (command (example_heap ! 0))
      (search_path (search_paths (example_heap ! 0))) = Some ''/bin/ls''"
    by (simp add: example_heap_def example_os_def)
  have d: "distinct (dict_keys [(''key'', PStr ''value''), (''_kwargs_sep'', PStr ''='')])"
    by (simp add: dict_keys_def)
  have cl: "command_list (example_heap ! 0) = Inr [PStr ''/bin/ls'']"
    by (simp add: example_heap_def command_list_def DEFAULT_OPTIONS_def dict_get_def)
  have kw0: "kwargs (example_heap ! 0) = []" "args (example_heap ! 0) = []"
    "options (example_heap ! 0) = DEFAULT_OPTIONS"
    by (simp_all add: example_heap_def)
  have fo: "filter_options (dict_keys DEFAULT_OPTIONS) []
      [(''key'', PStr ''value''), (''_kwargs_sep'', PStr ''='')] =
      ([(''kwargs_sep'', PStr ''='')], [(''key'', PStr ''value'')])"
    by (simp add: dict_keys_def DEFAULT_OPTIONS_def dict_get_def dict_pop_def)
  from bake_frame_and_merge [where h = example_heap and self = 0 and os = example_os
      and a = "[''-l'']" and kw = "[(''key'', PStr ''value''), (''_kwargs_sep'', PStr ''='')]",
      OF lt w d]
  obtain h' where h': "bake example_os example_heap 0 [''-l'']
            [(''key'', PStr ''value''), (''_kwargs_sep'', PStr ''='')] = (Inr 1, h')"
    "take 1 h' = example_heap"
    "command_list (h' ! 0) = command_list (example_heap ! 0)"
    "args (h' ! 1) = args (example_heap ! 0) @ [''-l'']"
    "kwargs (h' ! 1) = dict_update (kwargs (example_heap ! 0)) [(''key'', PStr ''value'')]"
    "options (h' ! 1) = dict_update (options (example_heap ! 0)) [(''kwargs_sep'', PStr ''='')]"
    unfolding len fo fst_conv snd_conv by (elim exE conjE) (rule that, simp_all)
  have "dict_get (options (h' ! 1)) ''kwargs_sep'' = Some (PStr ''='')"
    "dict_get (options (h' ! 1)) ''kwargs_prefix'' = Some (PStr ''--'')"
    unfolding h'(6) kw0 by (simp_all add: DEFAULT_OPTIONS_def dict_get_def)
  moreover have "kwargs (h' ! 1) = [(''key'', PStr ''value'')]" "args (h' ! 1) = [''-l'']"
    unfolding h'(4,5) kw0 by simp_all
  ultimately show ?thesis using h'(1,2,3) cl len by auto
qed

section \<open>Properties of start\<close>

lemma example_start:
  "start example_os example_world (example_process dm) =
     (Inr (), example_started dm, example_world\<lparr>children := [4242]\<rparr>)"
  by (cases dm)
     (simp_all add: start_def example_process_def example_started_def example_popen_def
        Process_init_def example_os_def example_world_def Popen_def create_env_def)

lemma create_env_files: "create_env (w\<lparr>files := fs\<rparr>) e = create_env w e"
  by (cases e) (simp_all add: create_env_def)

lemma start_spawn_fails:
  assumes "\<And>f. open_wb_ok os f"
    and "pcommand p = c # cs"
    and "to_strs (c # cs) = Some ss"
    and "spawn os ss (create_env w (environment p)) (working_dir p) = None"
  shows "\<exists>p' w'. start os w p = (Inl (CommandNotFound (not_found_message c)), p', w') \<and>
           process p' = process p \<and> wait_thread p' = wait_thread p \<and>
           children w' = children w"
  using assms
  by (cases "stdout p"; cases "stderr p"; cases "demux p")
     (simp_all add: start_def io_open_wb_def Popen_def create_env_files Process_command_def Let_def)

lemma start_merged_keeps_stderr_writer:
  "\<not> demux p \<Longrightarrow> start os w p = (r, p', w') \<Longrightarrow> stderr_writer p' = stderr_writer p"
  by (auto simp: start_def Let_def split: option.splits sum.splits prod.splits if_splits)

lemma has_waiter_init: "has_waiter (Process_init os w cmd out err dm env wd enc)"
  by (simp add: has_waiter_def Process_init_def)

lemma has_waiter_start: "has_waiter p \<Longrightarrow> start os w p = (r, p', w') \<Longrightarrow> has_waiter p'"
  by (auto simp: start_def has_waiter_def Let_def split: option.splits sum.splits prod.splits if_splits)

text \<open>
  C2 (with \<open>demux = False\<close> the error stream of the child shares the pipe of
  its output stream): evaluated on \<open>Process(["sleep", "1.5"], demux=False)\<close>.
  After \<open>start()\<close> the attribute \<open>_stderr_writer\<close> is still \<open>None\<close>, so
  \<open>Popen\<close> was called with \<open>stdout=PIPE, stderr=None\<close>: the child writes its
  output into a new pipe and keeps the standard error of the parent; the
  handle has an output pipe and no error pipe.
\<close>

theorem start_merged_stderr_not_shared:
  "start example_os example_world (example_process False) =
     (Inr (), example_started False, example_world\<lparr>children := [4242]\<rparr>) \<and>
   demux (example_process False) = False \<and>
   stdout_writer (example_started False) = Some PIPE \<and>
   stderr_writer (example_started False) = None \<and>
   popen_stream (stdout_writer (example_started False)) = NewPipe \<and>
   popen_stream (stderr_writer (example_started False)) = Inherited \<and>
   process (example_started False) = Some (example_popen False) \<and>
   popen_stdout (example_popen False) = Some [(1 / 2, [104, 105])] \<and>
   popen_stderr (example_popen False) = None"
proof -
  have "demux (example_process False) = False"
    by (simp add: example_process_def Process_init_def)
  moreover have "stdout_writer (example_started False) = Some PIPE"
    "stderr_writer (example_started False) = None"
    "process (example_started False) = Some (example_popen False)"
    by (simp_all add: example_started_def)
  moreover have "popen_stdout (example_popen False) = Some [(1 / 2, [104, 105])]"
    "popen_stderr (example_popen False) = None"
    by (simp_all add: example_popen_def)
  ultimately show ?thesis
    by (simp add: example_start)
qed

text \<open>
  C4: resolving a name that \<open>shutil.which\<close> does not find fails with
  \<open>CommandNotFound\<close> carrying that name and leaves the heap as it was;
  calling a command whose executable does not resolve fails in the same way
  before any process is built, with the process table unchanged; and when the
  spawn inside \<open>Popen\<close> fails with \<open>OSError\<close>, \<open>start\<close> raises
  \<open>CommandNotFound\<close> with a message naming the command, no handle is stored
  and no child is entered into the process table.
\<close>

theorem command_not_found:
  "(which os cmd (search_path sp) = None \<longrightarrow>
      Command_init os h cmd sp = (Inl (CommandNotFound cmd), h)) \<and>
   (which os (command (h ! self)) (search_path (search_paths (h ! self))) = None \<longrightarrow>
      Command_call os enc w h self a kw =
        (Inl (CommandNotFound (command (h ! self))), h, w)) \<and>
   ((\<forall>f. open_wb_ok os f) \<and> pcommand p = c # cs \<and> to_strs (c # cs) = Some ss \<and>
    spawn os ss (create_env w (environment p)) (working_dir p) = None \<longrightarrow>
      (\<exists>p' w'. start os w p = (Inl (CommandNotFound (not_found_message c)), p', w') \<and>
         process p' = process p \<and> wait_thread p' = wait_thread p \<and>
         children w' = children w))"
proof (intro conjI impI)
  assume "which os cmd (search_path sp) = None"
  then show "Command_init os h cmd sp = (Inl (CommandNotFound cmd), h)"
    by (rule Command_init_fail)
next
  assume "which os (command (h ! self)) (search_path (search_paths (h ! self))) = None"
  then show "Command_call os enc w h self a kw =
        (Inl (CommandNotFound (command (h ! self))), h, w)"
    by (simp add: Command_call_def bake_fail)
next
  assume "(\<forall>f. open_wb_ok os f) \<and> pcommand p = c # cs \<and> to_strs (c # cs) = Some ss \<and>
    spawn os ss (create_env w (environment p)) (working_dir p) = None"
  then show "\<exists>p' w'. start os w p = (Inl (CommandNotFound (not_found_message c)), p', w') \<and>
         process p' = process p \<and> wait_thread p' = wait_thread p \<and>
         children w' = children w"
    by (elim conjE) (rule start_spawn_fails [where ss = ss], simp, assumption+)
qed

theorem command_not_found_witness:
  "Command_init example_os [] ''nope'' None = (Inl (CommandNotFound ''nope''), []) \<and>
   Command_call (example_os\<lparr>which := (\<lambda>c path. None)\<rparr>) ''utf-8'' example_world
       example_heap 0 [''-l''] [] =
     (Inl (CommandNotFound ''/bin/ls''), example_heap, example_world) \<and>
   (\<exists>p' w'. start (example_os\<lparr>spawn := (\<lambda>argv env dir. None)\<rparr>) example_world
                 (example_process True) =
        (Inl (CommandNotFound (''Executable '' @ [CHR 0x22] @ ''sleep'' @ [CHR 0x22] @
                                '' not found'')), p', w') \<and>
      process p' = None \<and> children w' = [])"
proof -
  have a: "Command_init example_os [] ''nope'' None = (Inl (CommandNotFound ''nope''), [])"
    using command_not_found [where os = example_os and cmd = "''nope''" and sp = None
        and h = "[]"]
    by (simp add: example_os_def search_path_def)
  have b: "Command_call (example_os\<lparr>which := (\<lambda>c path. None)\<rparr>) ''utf-8'' example_world
       example_heap 0 [''-l''] [] =
     (Inl (CommandNotFound ''/bin/ls''), example_heap, example_world)"
    using command_not_found [where os = "example_os\<lparr>which := (\<lambda>c path. None)\<rparr>"
        and h = example_heap and self = 0 and enc = "''utf-8''" and w = example_world
        and a = "[''-l'']" and kw = "[]"]
    by (simp add: example_heap_def)
  have c: "\<exists>p' w'. start (example_os\<lparr>spawn := (\<lambda>argv env dir. None)\<rparr>) example_world
                 (example_process True) =
        (Inl (CommandNotFound (not_found_message (PStr ''sleep''))), p', w') \<and>
         process p' = process (example_process True) \<and>
         wait_thread p' = wait_thread (example_process True) \<and>
         children w' = children example_world"
    using command_not_found [where os = "example_os\<lparr>spawn := (\<lambda>argv env dir. None)\<rparr>"
        and p = "example_process True" and c = "PStr ''sleep''" and cs = "[PStr ''1.5'']"
        and ss = "[''sleep'', ''1.5'']" and w = example_world]
    by (simp add: example_process_def Process_init_def example_os_def)
  from c have "\<exists>p' w'. start (example_os\<lparr>spawn := (\<lambda>argv env dir. None)\<rparr>) example_world
                 (example_process True) =
        (Inl (CommandNotFound (''Executable '' @ [CHR 0x22] @ ''sleep'' @ [CHR 0x22] @
                                '' not found'')), p', w') \<and>
      process p' = None \<and> children w' = []"
    by (auto simp: not_found_message_def example_process_def Process_init_def example_world_def)
  with a b show ?thesis by simp
qed

section \<open>Properties of wait\<close>

lemma wait_until_expired:
  "\<not> clock w - ct < t * 1000 \<Longrightarrow> wait_until p ct t w = (False, w)"
  by (subst wait_until.simps) simp

lemma wait_until_stopped:
  "clock w - ct < t * 1000 \<Longrightarrow> \<not> is_running w p \<Longrightarrow> wait_until p ct t w = (True, w)"
  by (subst wait_until.simps) simp

lemma wait_until_running:
  "clock w - ct < t * 1000 \<Longrightarrow> is_running w p \<Longrightarrow>
     wait_until p ct t w = wait_until p ct t (sleep (1 / 10) w)"
  by (subst wait_until.simps) simp

lemma wait_until_steps:
  "(\<And>i. i < n \<Longrightarrow> is_running (w\<lparr>clock := clock w + of_nat i / 10\<rparr>) p \<and>
                 clock w + of_nat i / 10 - ct < t * 1000) \<Longrightarrow>
   wait_until p ct t w = wait_until p ct t (w\<lparr>clock := clock w + of_nat n / 10\<rparr>)"
proof (induction n)
  case 0
  then show ?case by simp
next
  case (Suc n)
  let ?w = "w\<lparr>clock := clock w + of_nat n / 10\<rparr>"
  have "wait_until p ct t w = wait_until p ct t ?w"
    using Suc.prems by (intro Suc.IH) simp
  also have "\<dots> = wait_until p ct t (sleep (1 / 10) ?w)"
    using Suc.prems [of n] by (intro wait_until_running) simp_all
  also have "sleep (1 / 10) ?w = w\<lparr>clock := clock w + of_nat (Suc n) / 10\<rparr>"
    by (simp add: sleep_def add_divide_distrib)
  finally show ?case .
qed

lemma wait_until_False_late:
  "wait_until p ct t w = (False, w') \<Longrightarrow> t * 1000 \<le> clock w' - ct"
proof (induction p ct t w rule: wait_until.induct)
  case (1 p current_time timeout w)
  show ?case
  proof (cases "clock w - current_time < timeout * 1000")
    case False
    with "1.prems" show ?thesis by (simp add: wait_until_expired)
  next
    case lt: True
    show ?thesis
    proof (cases "is_running w p")
      case True
      with lt "1.prems" have "wait_until p current_time timeout (sleep (1 / 10) w) = (False, w')"
        by (simp add: wait_until_running)
      with lt True show ?thesis by (rule "1.IH")
    next
      case False
      with lt "1.prems" show ?thesis by (simp add: wait_until_stopped)
    qed
  qed
qed

lemma wait_until_True_stopped:
  "wait_until p ct t w = (True, w') \<Longrightarrow> \<not> is_running w' p"
proof (induction p ct t w rule: wait_until.induct)
  case (1 p current_time timeout w)
  show ?case
  proof (cases "clock w - current_time < timeout * 1000")
    case False
    with "1.prems" show ?thesis by (simp add: wait_until_expired)
  next
    case lt: True
    show ?thesis
    proof (cases "is_running w p")
      case True
      with lt "1.prems" have "wait_until p current_time timeout (sleep (1 / 10) w) = (True, w')"
        by (simp add: wait_until_running)
      with lt True show ?thesis by (rule "1.IH")
    next
      case False
      with lt "1.prems" show ?thesis by (simp add: wait_until_stopped)
    qed
  qed
qed

lemma ex_running:
  "is_running (example_world\<lparr>clock := t\<rparr>) (example_started dm) = (t < 3 / 2)"
  by (auto simp: is_running_def returncode_def example_started_def example_popen_def)

lemma ex_wait:
  "wait (Some 1) example_world (example_started True) =
     Some (True, example_world\<lparr>clock := 3 / 2\<rparr>)"
proof -
  have c0: "clock example_world = 0" by (simp add: example_world_def)
  have run: "is_running (example_world\<lparr>clock := clock example_world + of_nat i / 10\<rparr>)
        (example_started True) \<and>
      clock example_world + of_nat i / 10 - clock example_world < 1 * 1000"
    if "i < 15" for i :: nat
  proof -
    have "(of_nat i :: rat) < 15" using that by simp
    then show ?thesis by (simp add: ex_running c0)
  qed
  have "wait_until (example_started True) (clock example_world) 1 example_world =
      wait_until (example_started True) (clock example_world) 1
        (example_world\<lparr>clock := clock example_world + of_nat 15 / 10\<rparr>)"
    by (rule wait_until_steps) (use run in blast)
  also have "\<dots> = (True, example_world\<lparr>clock := clock example_world + of_nat 15 / 10\<rparr>)"
    by (rule wait_until_stopped) (simp_all add: ex_running c0)
  finally show ?thesis by (simp add: wait_def c0)
qed

text \<open>
  C1 (\<open>wait(t)\<close> returns false once \<open>t\<close> seconds have elapsed with the
  process still running): evaluated on a started process whose child runs
  for one and a half seconds, with \<open>t = 1\<close>.  After one second the process is
  still running, yet \<open>wait(1)\<close> goes on polling, and returns true at one and
  a half seconds: the loop compares the elapsed seconds with \<open>timeout * 1000\<close>.
\<close>

theorem wait_timeout_in_thousands:
  "start example_os example_world (example_process True) =
     (Inr (), example_started True, example_world\<lparr>children := [4242]\<rparr>) \<and>
   is_running (example_world\<lparr>clock := 1\<rparr>) (example_started True) \<and>
   wait (Some 1) example_world (example_started True) =
     Some (True, example_world\<lparr>clock := 3 / 2\<rparr>)"
  by (simp add: example_start ex_running ex_wait)

section \<open>Properties of kill and exit_code\<close>

lemma send_kill_cases:
  "send_kill r w h = Inl e \<Longrightarrow> e = OSError \<and> r = SigFails"
  "send_kill r w h = Inr h' \<Longrightarrow> finish_time h' \<noteq> None"
  by (auto simp: send_kill_def deliver_def Let_def split: sig_result.splits option.splits if_splits)

lemma Popen_kill_Inl: "Popen_kill os w h = Inl e \<Longrightarrow> e = OSError \<and> popen_kill_sig os = SigFails \<and> returncode w h = None"
  by (auto simp: Popen_kill_def split: option.splits dest: send_kill_cases)

lemma Popen_kill_Inr: "Popen_kill os w h = Inr h1 \<Longrightarrow> finish_time h1 \<noteq> None"
  by (auto simp: Popen_kill_def returncode_def split: option.splits if_splits dest: send_kill_cases)

lemma force_kill_Inl: "force_kill os w p = Inl e \<Longrightarrow> e = OSError"
  by (auto simp: force_kill_def pid_def is_running_def split: option.splits sum.splits if_splits
      dest: send_kill_cases)

lemma force_kill_Inr:
  assumes "force_kill os w p = Inr p2" and "process p = Some h" and "finish_time h \<noteq> None"
  shows "wait_thread p2 = wait_thread p \<and> (\<exists>h2. process p2 = Some h2 \<and> finish_time h2 \<noteq> None)"
  using assms
  by (auto simp: force_kill_def pid_def split: option.splits sum.splits if_splits
      dest: send_kill_cases)

lemma thread_join_ok:
  assumes "wait_thread p \<noteq> None" and "process p = Some h" and "finish_time h \<noteq> None"
  shows "\<exists>p3 w2. thread_join w p = Some (Inr (p3, w2)) \<and> wait_thread p3 = Some Joined"
  using assms by (cases "wait_thread p"; cases "the (wait_thread p)") (auto simp: thread_join_def)

lemma kill_None: "process p = None \<Longrightarrow> kill os w p = Some (Inr None, p, w)"
  by (simp add: kill_def)

lemma kill_returns:
  assumes "has_waiter p"
  shows "\<exists>r p' w'. kill os w p = Some (Inr r, p', w') \<and>
           (r = None) = (process p = None) \<and>
           (r = Some False) = kill_os_error os w p \<and>
           (r = Some True \<longrightarrow> process p' = None \<and> wait_thread p' = Some Joined)"
proof (cases "process p")
  case None
  then have "kill os w p = Some (Inr None, p, w)" "\<not> kill_os_error os w p"
    by (simp_all add: kill_def kill_os_error_def)
  with None show ?thesis by auto
next
  case (Some h)
  let ?p1 = "p\<lparr>process := Some h1\<rparr>"
  show ?thesis
  proof (cases "Popen_kill os w h")
    case (Inl e)
    then have e: "e = OSError" by (simp add: Popen_kill_Inl)
    have "kill os w p = Some (Inr (Some False), p, w)" "kill_os_error os w p"
      using Some Inl e by (simp_all add: kill_def kill_os_error_def kill_except_def)
    with Some show ?thesis by auto
  next
    case (Inr h1)
    let ?p1 = "p\<lparr>process := Some h1\<rparr>"
    obtain b w1 where wu: "wait_until ?p1 (clock w) (1 / 2) w = (b, w1)"
      by (cases "wait_until ?p1 (clock w) (1 / 2) w")
    have fin: "finish_time h1 \<noteq> None" using Inr by (rule Popen_kill_Inr)
    have wt: "wait_thread ?p1 \<noteq> None"
      using assms Some by (simp add: has_waiter_def split: option.splits)
    show ?thesis
    proof (cases "force_kill os w1 ?p1")
      case (Inl e)
      then have e: "e = OSError" by (rule force_kill_Inl)
      have "kill os w p = Some (Inr (Some False), ?p1, w1)" "kill_os_error os w p"
        using Some Inr Inl e wu by (simp_all add: kill_def kill_os_error_def kill_except_def wait_def)
      with Some show ?thesis by auto
    next
      case fk: (Inr p2)
      have "process ?p1 = Some h1" by simp
      from force_kill_Inr [OF fk this fin]
      obtain h2 where p2: "wait_thread p2 = wait_thread ?p1" "process p2 = Some h2"
        "finish_time h2 \<noteq> None"
        by blast
      have "wait_thread p2 \<noteq> None" using p2(1) wt by simp
      from thread_join_ok [OF this p2(2) p2(3), of w1]
      obtain p3 w2 where tj: "thread_join w1 p2 = Some (Inr (p3, w2))"
        and j: "wait_thread p3 = Some Joined"
        by blast
      have "kill os w p = Some (Inr (Some True), p3\<lparr>process := None\<rparr>, w2)"
        "\<not> kill_os_error os w p"
        using Some Inr fk wu tj by (simp_all add: kill_def kill_os_error_def wait_def)
      with Some j show ?thesis by auto
    qed
  qed
qed

lemma force_kill_Inl_cause:
  "force_kill os w p = Inl e \<Longrightarrow>
     (\<exists>n. getpgid os n = None) \<or> killpg_sig os = SigFails \<or> kill_sig os = SigFails"
  by (auto simp: force_kill_def pid_def is_running_def
      split: option.splits sum.splits if_splits dest: send_kill_cases)

lemma kill_os_error_cause:
  assumes "kill_os_error os w p"
  shows "popen_kill_sig os = SigFails \<or> (\<exists>n. getpgid os n = None) \<or>
         killpg_sig os = SigFails \<or> kill_sig os = SigFails"
proof (cases "process p")
  case None
  with assms show ?thesis by (simp add: kill_os_error_def)
next
  case (Some h)
  show ?thesis
  proof (cases "Popen_kill os w h")
    case (Inl e)
    then show ?thesis by (simp add: Popen_kill_Inl)
  next
    case (Inr h1)
    with assms Some obtain e where
      "force_kill os (snd (wait_until (p\<lparr>process := Some h1\<rparr>) (clock w) (1 / 2) w))
         (p\<lparr>process := Some h1\<rparr>) = Inl e"
      by (auto simp: kill_os_error_def split: sum.splits)
    from force_kill_Inl_cause [OF this] show ?thesis by blast
  qed
qed

lemma kill_first_signal_fails:
  "process p = Some h \<Longrightarrow> returncode w h = None \<Longrightarrow> popen_kill_sig os = SigFails \<Longrightarrow>
     kill_os_error os w p"
  by (simp add: kill_os_error_def Popen_kill_def send_kill_def)

lemma kill_finished_process:
  assumes "has_waiter p" and "process p = Some h" and "returncode w h = Some c"
  shows "\<exists>p' w'. kill os w p = Some (Inr (Some True), p', w')"
proof -
  let ?p1 = "p\<lparr>process := Some h\<rparr>"
  have pk: "Popen_kill os w h = Inr h"
    using assms(3) by (simp add: Popen_kill_def)
  have nr: "\<not> is_running w ?p1"
    using assms(3) by (simp add: is_running_def)
  have wu: "wait_until ?p1 (clock w) (1 / 2) w = (True, w)"
    using nr by (intro wait_until_stopped) simp_all
  have fk: "force_kill os w ?p1 = Inr ?p1"
    using nr by (simp add: force_kill_def)
  have ne: "\<not> kill_os_error os w p"
    by (simp add: kill_os_error_def assms(2) pk wu fk)
  from kill_returns [OF assms(1), of os w]
  obtain r p' w' where k: "kill os w p = Some (Inr r, p', w')"
    and r1: "(r = None) = (process p = None)"
    and r2: "(r = Some False) = kill_os_error os w p"
    by (elim exE conjE) (rule that)
  from r1 r2 ne assms(2) have "r = Some True"
    by (cases r) auto
  with k show ?thesis by simp
qed

lemma has_waiter_kill:
  "has_waiter p \<Longrightarrow> kill os w p = Some (r, p', w') \<Longrightarrow> has_waiter p'"
  by (auto simp: kill_def has_waiter_def Let_def force_kill_def thread_join_def
      split: option.splits sum.splits prod.splits if_splits thread.splits)

lemma ex_kill:
  "kill example_os example_world (example_started dm) =
     Some (Inr (Some True),
           (example_started dm)\<lparr>process := None, wait_thread := Some Joined\<rparr>,
           example_world)"
proof -
  let ?h1 = "(example_popen dm)\<lparr>finish_time := Some 0, finish_code := - 9\<rparr>"
  let ?p1 = "(example_started dm)\<lparr>process := Some ?h1\<rparr>"
  have c0: "clock example_world = 0" by (simp add: example_world_def)
  have pk: "Popen_kill example_os example_world (example_popen dm) = Inr ?h1"
    by (simp add: Popen_kill_def returncode_def send_kill_def deliver_def c0
        example_popen_def example_os_def)
  have nr: "\<not> is_running example_world ?p1"
    by (simp add: is_running_def returncode_def c0)
  have wu: "wait_until ?p1 0 (1 / 2) example_world = (True, example_world)"
    by (rule wait_until_stopped) (simp_all add: c0 nr)
  have fk: "force_kill example_os example_world ?p1 = Inr ?p1"
    using nr by (simp add: force_kill_def)
  have tj: "thread_join example_world ?p1 =
      Some (Inr (?p1\<lparr>wait_thread := Some Joined\<rparr>, example_world))"
    by (simp add: thread_join_def example_started_def c0 [symmetric])
  have pr: "process (example_started dm) = Some (example_popen dm)"
    by (simp add: example_started_def)
  show ?thesis
    by (simp add: kill_def pr pk wait_def c0 wu fk tj)
qed

text \<open>
  What \<open>kill\<close> does on a process object that holds its waiter thread
  whenever it holds a handle (every object made by the constructor, \<open>start\<close>
  and \<open>kill\<close> does): it returns, and never raises.  It returns \<open>None\<close>,
  changing nothing, exactly when there is no handle; it returns \<open>False\<close>
  exactly when one of the operating-system calls of the kill sequence fails;
  and when it returns \<open>True\<close> the waiter thread has been joined and the
  handle is cleared, so that a second \<open>kill\<close> on the same object returns
  \<open>None\<close>.
\<close>

lemma kill_outcomes:
  assumes "has_waiter p"
  shows "\<exists>r p' w'. kill os w p = Some (Inr r, p', w') \<and>
           (r = None) = (process p = None) \<and>
           (r = None \<longrightarrow> p' = p \<and> w' = w) \<and>
           (r = Some False) = kill_os_error os w p \<and>
           (r = Some True \<longrightarrow>
              process p' = None \<and> wait_thread p' = Some Joined \<and>
              kill os2 w2 p' = Some (Inr None, p', w2))"
proof -
  from kill_returns [OF assms, of os w]
  obtain r p' w' where k: "kill os w p = Some (Inr r, p', w')"
    and r1: "(r = None) = (process p = None)"
    and r2: "(r = Some False) = kill_os_error os w p"
    and r3: "r = Some True \<longrightarrow> process p' = None \<and> wait_thread p' = Some Joined"
    by (elim exE conjE) (rule that)
  have r4: "r = None \<longrightarrow> p' = p \<and> w' = w"
  proof
    assume "r = None"
    with r1 have "process p = None" by simp
    then have "kill os w p = Some (Inr None, p, w)" by (rule kill_None)
    with k show "p' = p \<and> w' = w" by simp
  qed
  have r5: "r = Some True \<longrightarrow>
      process p' = None \<and> wait_thread p' = Some Joined \<and>
      kill os2 w2 p' = Some (Inr None, p', w2)"
    using r3 by (simp add: kill_None)
  show ?thesis
    using k r1 r4 r2 r5 by (intro exI conjI)
qed

text \<open>
  C3 (\<open>kill\<close> returns \<open>None\<close> if the process was never started or was
  already reaped): evaluated on a started process whose child has ended on
  its own after one and a half seconds, with \<open>kill\<close> called at two seconds.
  The child is gone and the waiter thread has collected its exit status 0,
  but the handle is still there: \<open>kill\<close> goes through the whole sequence,
  joins the thread, clears the handle and returns \<open>True\<close>, where the claim,
  and the docstring of \<open>kill\<close> (\<open>None\<close> if the process is not running), say
  \<open>None\<close>.
\<close>

theorem kill_reaped_returns_True:
  "start example_os example_world (example_process True) =
     (Inr (), example_started True, example_world\<lparr>children := [4242]\<rparr>) \<and>
   is_running (example_world\<lparr>clock := 2\<rparr>) (example_started True) = False \<and>
   exit_code (example_world\<lparr>clock := 2\<rparr>) (example_started True) = Inr (Some 0) \<and>
   kill example_os (example_world\<lparr>clock := 2\<rparr>) (example_started True) =
     Some (Inr (Some True),
           (example_started True)\<lparr>process := None, wait_thread := Some Joined\<rparr>,
           example_world\<lparr>clock := 2\<rparr>)"
proof -
  let ?w = "example_world\<lparr>clock := 2\<rparr>"
  let ?p = "example_started True"
  have pr: "process ?p = Some (example_popen True)" "wait_thread ?p = Some Started"
    by (simp_all add: example_started_def)
  have rc: "returncode ?w (example_popen True) = Some 0"
    by (simp add: returncode_def example_popen_def)
  have nr: "is_running ?w ?p = False"
    by (simp add: ex_running)
  have ec: "exit_code ?w ?p = Inr (Some 0)"
    by (simp add: exit_code_def nr pr rc)
  have pk: "Popen_kill example_os ?w (example_popen True) = Inr (example_popen True)"
    by (simp add: Popen_kill_def rc)
  have same: "?p\<lparr>process := Some (example_popen True)\<rparr> = ?p"
    by (simp add: example_started_def)
  have wu: "wait_until ?p 2 (1 / 2) ?w = (True, ?w)"
    by (rule wait_until_stopped) (simp_all add: nr)
  have fk: "force_kill example_os ?w ?p = Inr ?p"
    by (simp add: force_kill_def nr)
  have tj: "thread_join ?w ?p = Some (Inr (?p\<lparr>wait_thread := Some Joined\<rparr>, ?w))"
    by (simp add: thread_join_def pr example_popen_def)
  have k: "kill example_os ?w ?p =
     Some (Inr (Some True), ?p\<lparr>process := None, wait_thread := Some Joined\<rparr>, ?w)"
    by (simp add: kill_def pr pk same wait_def wu fk tj)
  from nr ec k show ?thesis by (simp add: example_start)
qed

text \<open>
  C10: \<open>exit_code\<close> on a process that was never started, or on one whose
  \<open>kill\<close> returned \<open>True\<close>, raises \<open>AttributeError\<close>: the handle is \<open>None\<close>
  and \<open>self._process.returncode\<close> is evaluated.
\<close>

theorem exit_code_absent_handle:
  "exit_code w (Process_init os w0 cmd out err dm env wd enc) = Inl AttributeError \<and>
   (kill os w1 p = Some (Inr (Some True), p', w') \<longrightarrow> exit_code w2 p' = Inl AttributeError)"
proof -
  have "process p' = None" if "kill os w1 p = Some (Inr (Some True), p', w')"
    using that
    by (auto simp: kill_def kill_except_def Let_def
        split: option.splits sum.splits prod.splits if_splits)
  then show ?thesis
    by (simp add: exit_code_def is_running_def Process_init_def)
qed

theorem exit_code_absent_handle_witness:
  "exit_code example_world (example_process True) = Inl AttributeError \<and>
   kill example_os example_world (example_started True) =
     Some (Inr (Some True),
           (example_started True)\<lparr>process := None, wait_thread := Some Joined\<rparr>,
           example_world) \<and>
   exit_code example_world
     ((example_started True)\<lparr>process := None, wait_thread := Some Joined\<rparr>) =
     Inl AttributeError"
  using exit_code_absent_handle [of example_world example_os example_world
      "[PStr ''sleep'', PStr ''1.5'']" None None True None None "''utf-8''"
      example_world "example_started True"
      "(example_started True)\<lparr>process := None, wait_thread := Some Joined\<rparr>"
      example_world example_world]
  by (simp add: ex_kill example_process_def)

section \<open>Properties of write and eread\<close>

lemma case_list_nonempty: "s \<noteq> [] \<Longrightarrow> (case s of [] \<Rightarrow> a | c # cs \<Rightarrow> f) = f"
  by (cases s) simp_all

lemma Process_write_nonempty:
  assumes "s \<noteq> []" and "process p = Some h" and "returncode w h = None"
    and "str_encode os (encoding p) (if last s \<noteq> CHR 0x0A then s @ [CHR 0x0A] else s) = Inr b"
  shows "Process_write os w p s =
     (Inr (),
      p\<lparr>process := Some (h\<lparr>stdin_pipe := stdin_pipe h @ stdin_buffer h @ b,
                              stdin_buffer := []\<rparr>)\<rparr>)"
proof -
  have rc: "returncode w (h\<lparr>stdin_buffer := stdin_buffer h @ b\<rparr>) = None"
    using assms(3) by (simp add: returncode_def split: option.splits if_splits)
  show ?thesis
    unfolding Process_write_def case_list_nonempty [OF assms(1)] Let_def assms(2) assms(4)
    by (simp add: rc)
qed

text \<open>
  C8 (for every string written to a running process, a newline is appended
  if absent and the encoded text is written and flushed): on the empty
  string the code raises \<open>IndexError\<close> before anything is written, whatever
  the state of the process; the process object is left as it was.
\<close>

theorem Process_write_empty_string:
  "Process_write os w p [] = (Inl IndexError, p)"
  by (simp add: Process_write_def)

lemma abspath_example: "abspath example_os d f = d @ ''/'' @ f"
  by (simp add: example_os_def)

lemma ex_decode: "bytes_decode example_os enc [33, 120] = Inr ''!x''"
  by code_simp

lemma eread_no_demux: "\<not> demux p \<Longrightarrow> eread os w p = Some (Inr [], p, w)"
  by (simp add: eread_def)

lemma eread_file:
  "demux p \<Longrightarrow> stderr p = Some f \<Longrightarrow> dict_get (files w) f = Some b \<Longrightarrow>
     eread os w p =
       Some (case bytes_decode os (encoding p) b of
               Inl e \<Rightarrow> Inl e | Inr s \<Rightarrow> Inr (universal_newlines s), p, w)"
  by (simp add: eread_def read_text_file_def)

lemma eread_pipe:
  "demux p \<Longrightarrow> stderr p = None \<Longrightarrow> process p = Some h \<Longrightarrow> popen_stderr h = Some chunks \<Longrightarrow>
   finish_time h = Some t \<Longrightarrow>
     eread os w p =
       Some (bytes_decode os (encoding p) (concat (map snd (filter (\<lambda>c. fst c \<le> t) chunks))),
             p\<lparr>process := Some (h\<lparr>popen_stderr := Some []\<rparr>)\<rparr>,
             w\<lparr>clock := max (clock w) t\<rparr>)"
  by (simp add: eread_def pipe_read_def)

lemma eread_pipe_blocks:
  "demux p \<Longrightarrow> stderr p = None \<Longrightarrow> process p = Some h \<Longrightarrow> popen_stderr h = Some chunks \<Longrightarrow>
   finish_time h = None \<Longrightarrow> eread os w p = None"
  by (simp add: eread_def pipe_read_def)

text \<open>
  C9 (with \<open>demux\<close> and a pipe, \<open>eread\<close> drains what is currently buffered
  in the pipe): evaluated on a started process whose child writes \<open>!\<close> to its
  standard error after half a second and \<open>x\<close> after 1.2 seconds, and ends
  after one and a half seconds, with \<open>eread\<close> called at 0.6 seconds.  The
  pipe then holds \<open>!\<close>, but \<open>stderr.read()\<close> reads to the end of file: the
  call blocks until the child has ended and returns \<open>!x\<close> at one and a half
  seconds; on a child that never ends it does not return.  The docstring of
  \<open>eread\<close> says it returns what the process has written, or the empty string
  if it has written nothing.  (Without \<open>demux\<close> the result is the empty
  string, and with a file the whole file is read again on every call, as
  \<open>eread_no_demux\<close> and \<open>eread_file\<close> show.)
\<close>

theorem eread_reads_to_end_of_file:
  "start example_os example_world (example_process True) =
     (Inr (), example_started True, example_world\<lparr>children := [4242]\<rparr>) \<and>
   is_running (example_world\<lparr>clock := 3 / 5\<rparr>) (example_started True) \<and>
   popen_stderr (example_popen True) = Some [(1 / 2, [33]), (6 / 5, [120])] \<and>
   pipe_buffered (example_world\<lparr>clock := 3 / 5\<rparr>) [(1 / 2, [33]), (6 / 5, [120])] = [33] \<and>
   eread example_os (example_world\<lparr>clock := 3 / 5\<rparr>) (example_started True) =
     Some (Inr ''!x'',
           (example_started True)
             \<lparr>process := Some ((example_popen True)\<lparr>popen_stderr := Some []\<rparr>)\<rparr>,
           example_world\<lparr>clock := 3 / 2\<rparr>) \<and>
   eread example_os (example_world\<lparr>clock := 3 / 5\<rparr>)
     ((example_started True)
        \<lparr>process := Some ((example_popen True)\<lparr>finish_time := None\<rparr>)\<rparr>) = None"
proof -
  have p: "demux (example_started True)" "stderr (example_started True) = None"
    "process (example_started True) = Some (example_popen True)"
    "encoding (example_started True) = ''utf-8''"
    by (simp_all add: example_started_def example_process_def Process_init_def)
  have h: "popen_stderr (example_popen True) = Some [(1 / 2, [33]), (6 / 5, [120])]"
    "finish_time (example_popen True) = Some (3 / 2)"
    by (simp_all add: example_popen_def)
  have b: "pipe_buffered (example_world\<lparr>clock := 3 / 5\<rparr>) [(1 / 2, [33]), (6 / 5, [120])] = [33]"
    by (simp add: pipe_buffered_def)
  have e: "eread example_os (example_world\<lparr>clock := 3 / 5\<rparr>) (example_started True) =
     Some (Inr ''!x'',
           (example_started True)
             \<lparr>process := Some ((example_popen True)\<lparr>popen_stderr := Some []\<rparr>)\<rparr>,
           example_world\<lparr>clock := 3 / 2\<rparr>)"
    by (simp add: eread_pipe [OF p(1) p(2) p(3) h(1) h(2)] p(4) ex_decode)
  have n: "eread example_os (example_world\<lparr>clock := 3 / 5\<rparr>)
     ((example_started True)
        \<lparr>process := Some ((example_popen True)\<lparr>finish_time := None\<rparr>)\<rparr>) = None"
    by (rule eread_pipe_blocks [where chunks = "[(1 / 2, [33]), (6 / 5, [120])]"
          and h = "(example_popen True)\<lparr>finish_time := None\<rparr>"])
       (simp_all add: p h)
  from b e n h(1) show ?thesis
    by (simp add: example_start ex_running)
qed

section \<open>Properties of pushd\<close>

lemma pushd_result:
  assumes "pushd_can_enter os path create w"
    and "cwd w \<in> set (dirs (snd (body (pushd_entered os path create w))))"
  shows "pushd os path create body w =
     (fst (body (pushd_entered os path create w)),
      (snd (body (pushd_entered os path create w)))\<lparr>cwd := cwd w\<rparr>)"
  using assms
  by (cases "body (pushd_entered os path create w)")
     (auto simp: pushd_def pushd_can_enter_def pushd_entered_def makedirs_def chdir_def Let_def)

lemma pushd_entered_cwd: "cwd (pushd_entered os path create w) = abspath os (cwd w) path"
  by (simp add: pushd_entered_def)

lemma pushd_entered_dirs: "dirs (pushd_entered os path False w) = dirs w"
  by (simp add: pushd_entered_def)

text \<open>
  C5: when \<open>pushd\<close> gets into the directory, the block starts in the absolute
  path of the target, and when the block is left, by returning or by raising,
  the working directory is again the one recorded on entry, the outcome of
  the block being the outcome of the statement; the recorded directory has to
  be there still for \<open>os.chdir\<close> to go back to it.  For a block that is itself
  a \<open>pushd\<close>, the inner statement ends in the directory of the outer one, and
  the outer statement in the original directory.
\<close>

theorem pushd_restores_cwd:
  fixes body :: "world \<Rightarrow> (error + 'a) \<times> world"
  assumes "pushd_can_enter os path create w"
    and "cwd w \<in> set (dirs (snd (body (pushd_entered os path create w))))"
  shows "cwd (pushd_entered os path create w) = abspath os (cwd w) path \<and>
         fst (pushd os path create body w) = fst (body (pushd_entered os path create w)) \<and>
         cwd (snd (pushd os path create body w)) = cwd w \<and>
         (pushd_can_enter os path2 create2 (pushd_entered os path create w) \<and>
          body = pushd os path2 create2 body2 \<and>
          cwd (pushd_entered os path create w)
            \<in> set (dirs (snd (body2 (pushd_entered os path2 create2
                                      (pushd_entered os path create w))))) \<longrightarrow>
          cwd (snd (body (pushd_entered os path create w))) =
            cwd (pushd_entered os path create w))"
proof -
  have a: "cwd (pushd_entered os path create w) = abspath os (cwd w) path"
    by (simp add: pushd_entered_def)
  have b: "pushd os path create body w =
     (fst (body (pushd_entered os path create w)),
      (snd (body (pushd_entered os path create w)))\<lparr>cwd := cwd w\<rparr>)"
    using assms by (rule pushd_result)
  have c: "cwd (snd (body (pushd_entered os path create w))) =
            cwd (pushd_entered os path create w)"
    if "pushd_can_enter os path2 create2 (pushd_entered os path create w)"
      and "body = pushd os path2 create2 body2"
      and "cwd (pushd_entered os path create w)
            \<in> set (dirs (snd (body2 (pushd_entered os path2 create2
                                      (pushd_entered os path create w)))))"
    using pushd_result [where os = os and path = path2 and create = create2 and body = body2
        and w = "pushd_entered os path create w", OF that(1) that(3)] that(2)
    by simp
  from a b c show ?thesis by simp
qed

theorem pushd_restores_cwd_witness:
  "fst (pushd example_os ''a'' False (pushd example_os ''b'' False example_raise)
          example_world) = Inl KeyError \<and>
   cwd (snd (pushd example_os ''a'' False (pushd example_os ''b'' False example_raise)
               example_world)) = ''/home'' \<and>
   cwd (pushd_entered example_os ''a'' False example_world) = ''/home/a'' \<and>
   cwd (snd (pushd example_os ''b'' False example_raise
               (pushd_entered example_os ''a'' False example_world))) = ''/home/a''"
proof -
  let ?w1 = "pushd_entered example_os ''a'' False example_world"
  let ?w2 = "pushd_entered example_os ''b'' False ?w1"
  have w0: "cwd example_world = ''/home''"
    "dirs example_world = [''/home'', ''/home/a'', ''/home/a/b'']"
    by (simp_all add: example_world_def)
  have w1: "cwd ?w1 = ''/home/a''" "dirs ?w1 = dirs example_world"
    by (simp_all add: pushd_entered_cwd pushd_entered_dirs abspath_example w0)
  have w2: "cwd ?w2 = ''/home/a/b''" "dirs ?w2 = dirs example_world"
    by (simp_all add: pushd_entered_cwd pushd_entered_dirs abspath_example w0)
  have c1: "pushd_can_enter example_os ''a'' False example_world"
    by (simp add: pushd_can_enter_def abspath_example w0)
  have c3: "pushd_can_enter example_os ''b'' False ?w1"
    by (simp add: pushd_can_enter_def abspath_example w0 w1)
  have c4: "cwd ?w1 \<in> set (dirs (snd (example_raise ?w2)))"
    by (simp add: example_raise_def w0 w1 w2)
  have inner: "pushd example_os ''b'' False example_raise ?w1 =
      (Inl KeyError, ?w2\<lparr>cwd := cwd ?w1\<rparr>)"
    using pushd_result [where body = example_raise and os = example_os and path = "''b''"
        and create = False and w = ?w1, OF c3 c4]
    by (simp add: example_raise_def)
  have c2: "cwd example_world
      \<in> set (dirs (snd (pushd example_os ''b'' False example_raise ?w1)))"
    by (simp add: inner w0 w2)
  from pushd_restores_cwd [where body = "pushd example_os ''b'' False example_raise"
      and ?body2.0 = example_raise and ?path2.0 = "''b''" and ?create2.0 = False, OF c1 c2]
    c3 c4
  have "fst (pushd example_os ''a'' False (pushd example_os ''b'' False example_raise)
          example_world) = fst (pushd example_os ''b'' False example_raise ?w1)"
    "cwd (snd (pushd example_os ''a'' False (pushd example_os ''b'' False example_raise)
               example_world)) = cwd example_world"
    "cwd (snd (pushd example_os ''b'' False example_raise ?w1)) = cwd ?w1"
    by simp_all
  then show ?thesis
    by (simp add: inner w0 w1)
qed

end
